theory Spec2Isabelle
  imports Complex_Main
begin

section \<open>The CSV uploader component: data model\<close>

text \<open>
  The component \<open>MyCsvUploader\<close> is modelled by explicit state passing. A JavaScript
  string is a \<^typ>\<open>string\<close>; a \<^typ>\<open>char\<close> stands for one UTF-16 code unit below 256,
  code units from 256 on are outside the model. A value of type \<open>string | undefined\<close>
  or \<open>string | null\<close> is a \<^typ>\<open>string option\<close>. A JavaScript number that counts (a row
  index, a file size in bytes) is a \<^typ>\<open>nat\<close>; the number \<open>maxSizeMB\<close> may be fractional
  and is a \<^typ>\<open>rat\<close> (every finite double is rational, and the products and quotients by
  1024 that the handler takes are exact on doubles); the values \<open>NaN\<close> and \<open>Infinity\<close> are
  outside the model. What is modelled is the drop handler with the two parser callbacks,
  and the template export; rendering, the delete handler and the fetch of data uploaded
  earlier are not.
\<close>

subsection \<open>Parsed rows\<close>

text \<open>
  A row that \<open>Papa.parse\<close> builds with \<open>header: true\<close> is a plain object. Its own
  properties are the columns of the header, each a string, and \<open>__parsed_extra\<close>, an array
  of strings, when the line has more fields than the header. A row is the map of its own
  properties. (The parser's assignment cannot give a row an own property \<open>__proto__\<close>; the
  model does not exclude such a row, and reads it like any other own property.)
\<close>

datatype cell = Str string | Extra "string list"

type_synonym row = "string \<rightharpoonup> cell"

text \<open>
  A plain object inherits the properties of \<open>Object.prototype\<close>: eleven functions and the
  accessor \<open>__proto__\<close>, which returns an object.
\<close>

definition object_prototype_keys :: "string list" where
  "object_prototype_keys =
     [''constructor'', ''__defineGetter__'', ''__defineSetter__'', ''hasOwnProperty'',
      ''__lookupGetter__'', ''__lookupSetter__'', ''isPrototypeOf'', ''propertyIsEnumerable'',
      ''toString'', ''valueOf'', ''__proto__'', ''toLocaleString'']"

text \<open>
  What \<open>row[key]\<close> evaluates to: \<open>undefined\<close>, a string, or a value that is neither (an
  array, a function or an object).
\<close>

datatype js_value = JSUndefined | JSString string | JSObject

definition get_property :: "row \<Rightarrow> string \<Rightarrow> js_value" where
  "get_property row key =
     (case row key of
        Some (Str s) \<Rightarrow> JSString s
      | Some (Extra xs) \<Rightarrow> JSObject
      | None \<Rightarrow> if key \<in> set object_prototype_keys then JSObject else JSUndefined)"

text \<open>The exception that a call of something that is not a function throws.\<close>

datatype js_error = TypeError

subsection \<open>Configuration, state and calls\<close>

text \<open>The interface \<open>ColumnConfig\<close>.\<close>

record ColumnConfig =
  name :: string
  required :: bool
  validate :: "(string \<Rightarrow> bool) option"
  description :: "string option"

text \<open>What the handler reads of a browser \<open>File\<close>: \<open>file.name\<close> and \<open>file.size\<close>.\<close>

record File =
  file_name :: string
  file_size :: nat

text \<open>
  The properties of the component that the upload handler and the template export read.
  The callbacks \<open>onUpload\<close> and \<open>onDelete\<close> return nothing: they appear as calls in the
  trace below.
\<close>

record CSVUploaderProps =
  columnConfigs :: "ColumnConfig list"
  maxSizeMB :: "rat option"
  validator :: "row list \<Rightarrow> string option"

text \<open>The \<open>useState\<close> cells of the component.\<close>

record uploader_state =
  uploadedFileName :: "string option"
  uploadedFileSize :: "string option"
  errors :: "string list"
  parsedData :: "row list"
  fileError :: "string option"
  showUploadedDataTable :: bool

text \<open>
  Calls that leave the component, in the order they are made: a rule's \<open>validate\<close>
  function (with the rule's name and the argument), the batch \<open>validator\<close>, the
  \<open>onUpload\<close> callback and \<open>Papa.parse\<close> (with the name and the size of the file).
\<close>

datatype call =
    ColValidate string string
  | BatchValidator "row list"
  | OnUpload "row list"
  | PapaParse string nat

text \<open>
  \<open>Papa.parse\<close> ends in one of its two callbacks: \<open>complete\<close> with the parsed rows, or
  \<open>error\<close> with an error whose \<open>message\<close> is read.
\<close>

datatype parse_outcome = Complete "row list" | Error string

text \<open>
  Collaborators that are not code of the component: the CSV parser and the built-ins
  \<open>Number.prototype.toFixed\<close> (digits first) and \<open>encodeURI\<close>.
\<close>

record env =
  papa :: "File \<Rightarrow> parse_outcome"
  toFixed :: "nat \<Rightarrow> rat \<Rightarrow> string"
  encodeURI :: "string \<Rightarrow> string"

section \<open>Strings\<close>

text \<open>
  \<open>String.prototype.trim\<close> removes white space and line terminators from both ends.
  Below 256 these are the code units 9 to 13, 32 and 160.
\<close>

definition is_white_space :: "char \<Rightarrow> bool" where
  "is_white_space c = (of_char c \<in> {9, 10, 11, 12, 13, 32, 160 :: nat})"

definition trim :: "string \<Rightarrow> string" where
  "trim s = rev (dropWhile is_white_space (rev (dropWhile is_white_space s)))"

text \<open>
  \<open>v?.trim()\<close>: \<open>undefined\<close> for \<open>undefined\<close>, the trimmed string for a string, and a
  \<open>TypeError\<close> for any other value, which has no \<open>trim\<close> to call.
\<close>

definition optional_trim :: "js_value \<Rightarrow> js_error + string option" where
  "optional_trim v =
     (case v of
        JSUndefined \<Rightarrow> Inr None
      | JSString s \<Rightarrow> Inr (Some (trim s))
      | JSObject \<Rightarrow> Inl TypeError)"

text \<open>Truthiness of a \<open>string | undefined\<close>: defined and not the empty string.\<close>

fun truthy :: "string option \<Rightarrow> bool" where
  "truthy None = False"
| "truthy (Some s) = (s \<noteq> [])"

text \<open>The decimal numeral that a template literal prints for a non-negative integer.\<close>

fun string_of_nat :: "nat \<Rightarrow> string" where
  "string_of_nat n =
     (if n < 10 then [''0123456789'' ! n]
      else string_of_nat (n div 10) @ [''0123456789'' ! (n mod 10)])"

declare string_of_nat.simps [simp del]

definition join :: "string \<Rightarrow> string list \<Rightarrow> string" where
  "join sep xs = (case xs of [] \<Rightarrow> [] | y # ys \<Rightarrow> y @ concat (map (\<lambda>z. sep @ z) ys))"

section \<open>The upload handler\<close>

definition maxSize :: "CSVUploaderProps \<Rightarrow> rat option" where
  "maxSize props =
     (case maxSizeMB props of
        None \<Rightarrow> None
      | Some mb \<Rightarrow> if mb \<noteq> 0 then Some (mb * 1024 * 1024) else None)"

definition missing_message :: "nat \<Rightarrow> ColumnConfig \<Rightarrow> string" where
  "missing_message index col =
     ''Row '' @ string_of_nat (index + 2) @ '': Missing required field \"'' @ name col @ ''\".''"

definition invalid_message :: "nat \<Rightarrow> ColumnConfig \<Rightarrow> string" where
  "invalid_message index col =
     ''Row '' @ string_of_nat (index + 2) @ '': Invalid value in \"'' @ name col @ ''\".''"

text \<open>
  Code that may throw returns a pair: the thrown error or the returned value, and the
  variables it updates as they are when it throws or returns. For the validation pass
  these are \<open>allErrors\<close>, \<open>valid\<close> and the trace of calls.

  The body of \<open>columnConfigs.forEach\<close> for one rule: the lookup \<open>row[col.name]?.trim()\<close>
  comes first and may throw.
\<close>

type_synonym pass = "string list \<times> bool \<times> call list"

fun check_col :: "nat \<Rightarrow> row \<Rightarrow> ColumnConfig \<Rightarrow> pass \<Rightarrow> (js_error + unit) \<times> pass" where
  "check_col index row col (allErrors, valid, calls) =
     (case optional_trim (get_property row (name col)) of
        Inl err \<Rightarrow> (Inl err, allErrors, valid, calls)
      | Inr val \<Rightarrow>
          (let (allErrors, valid) =
                 (if required col \<and> \<not> truthy val
                  then (allErrors @ [missing_message index col], False)
                  else (allErrors, valid))
           in if truthy val then
                (case validate col of
                   None \<Rightarrow> (Inr (), allErrors, valid, calls)
                 | Some f \<Rightarrow>
                     if \<not> f (the val)
                     then (Inr (), allErrors @ [invalid_message index col], False,
                           calls @ [ColValidate (name col) (the val)])
                     else (Inr (), allErrors, valid,
                           calls @ [ColValidate (name col) (the val)]))
              else (Inr (), allErrors, valid, calls)))"

text \<open>\<open>Array.prototype.forEach\<close> with a callback that may throw: a throw ends the loop.\<close>

fun for_each ::
  "('a \<Rightarrow> 's \<Rightarrow> (js_error + unit) \<times> 's) \<Rightarrow> 'a list \<Rightarrow> 's \<Rightarrow> (js_error + unit) \<times> 's"
where
  "for_each f [] s = (Inr (), s)"
| "for_each f (x # xs) s =
     (case f x s of
        (Inl err, s') \<Rightarrow> (Inl err, s')
      | (Inr u, s') \<Rightarrow> for_each f xs s')"

text \<open>The callback of \<open>data.filter\<close> for one row: \<open>valid\<close> starts as true.\<close>

definition check_row ::
  "ColumnConfig list \<Rightarrow> nat \<Rightarrow> row \<Rightarrow> string list \<times> call list
     \<Rightarrow> (js_error + bool) \<times> string list \<times> call list"
where
  "check_row cols index row = (\<lambda>(allErrors, calls).
     (case for_each (check_col index row) cols (allErrors, True, calls) of
        (Inl err, allErrors', valid, calls') \<Rightarrow> (Inl err, allErrors', calls')
      | (Inr u, allErrors', valid, calls') \<Rightarrow> (Inr valid, allErrors', calls')))"

text \<open>
  \<open>data.filter((row, index) => ...)\<close>: the rows kept, unless a callback throws, with the
  errors pushed and the calls made.
\<close>

fun filter_rows ::
  "ColumnConfig list \<Rightarrow> nat \<Rightarrow> row list \<Rightarrow> string list \<times> call list
     \<Rightarrow> (js_error + row list) \<times> string list \<times> call list"
where
  "filter_rows cols index [] (allErrors, calls) = (Inr [], allErrors, calls)"
| "filter_rows cols index (row # rows) (allErrors, calls) =
     (case check_row cols index row (allErrors, calls) of
        (Inl err, allErrors', calls') \<Rightarrow> (Inl err, allErrors', calls')
      | (Inr valid, allErrors', calls') \<Rightarrow>
          (case filter_rows cols (index + 1) rows (allErrors', calls') of
             (Inl err, allErrors'', calls'') \<Rightarrow> (Inl err, allErrors'', calls'')
           | (Inr kept, allErrors'', calls'') \<Rightarrow>
               (Inr (if valid then row # kept else kept), allErrors'', calls'')))"

text \<open>
  The \<open>complete\<close> callback handed to \<open>Papa.parse\<close>: the thrown error or a plain return,
  the state of the component and the calls made. When the filter throws, no state setter
  has run.
\<close>

definition complete_callback ::
  "env \<Rightarrow> CSVUploaderProps \<Rightarrow> File \<Rightarrow> row list \<Rightarrow> uploader_state
     \<Rightarrow> (js_error + unit) \<times> uploader_state \<times> call list"
where
  "complete_callback e props file data st =
     (case filter_rows (columnConfigs props) 0 data ([], []) of
        (Inl err, allErrors, calls) \<Rightarrow> (Inl err, st, calls)
      | (Inr validated, allErrors, calls) \<Rightarrow>
          if length allErrors > 0 then (Inr (), st\<lparr>errors := allErrors\<rparr>, calls)
          else
            (let validationErr = validator props validated in
             if truthy validationErr
             then (Inr (), st\<lparr>errors := [the validationErr]\<rparr>,
                   calls @ [BatchValidator validated])
             else
               (Inr (),
                st\<lparr>parsedData := validated,
                   uploadedFileName := Some (file_name file),
                   uploadedFileSize :=
                     Some (toFixed e 4 (of_nat (file_size file) / (1024 * 1024)))\<rparr>,
                calls @ [BatchValidator validated, OnUpload validated])))"

text \<open>The \<open>error\<close> callback handed to \<open>Papa.parse\<close>.\<close>

definition error_callback ::
  "string \<Rightarrow> uploader_state \<Rightarrow> (js_error + unit) \<times> uploader_state \<times> call list"
where
  "error_callback message st =
     (Inr (), st\<lparr>fileError := Some (''Parsing error: '' @ message)\<rparr>, [])"

text \<open>The test \<open>maxSize && file.size > maxSize\<close>.\<close>

definition too_large :: "CSVUploaderProps \<Rightarrow> File \<Rightarrow> bool" where
  "too_large props file =
     (case maxSize props of None \<Rightarrow> False | Some m \<Rightarrow> of_nat (file_size file) > m)"

text \<open>
  \<open>onDrop\<close>, from its call to its return: the state and the calls made. An empty
  \<open>acceptedFiles\<close> makes \<open>acceptedFiles[0]\<close> undefined, and the handler returns.
  \<open>Papa.parse\<close> on a \<open>File\<close> returns at once and calls back later: the handler ends with
  the call, and the callback is an event of its own.
\<close>

definition onDrop ::
  "env \<Rightarrow> CSVUploaderProps \<Rightarrow> File list \<Rightarrow> uploader_state \<Rightarrow> uploader_state \<times> call list"
where
  "onDrop e props acceptedFiles st0 =
     (let st = st0\<lparr>errors := []\<rparr>;
          st = st\<lparr>fileError := None\<rparr>
      in case acceptedFiles of
           [] \<Rightarrow> (st, [])
         | file # _ \<Rightarrow>
             if too_large props file
             then (st\<lparr>fileError :=
                       Some (''File exceeds maximum size of ''
                             @ toFixed e 2 (the (maxSize props) / 1024 / 1024) @ ''MB.'')\<rparr>, [])
             else (st, [PapaParse (file_name file) (file_size file)]))"

text \<open>
  The later event: the parser calls back for the file it was given, on the state of the
  component at that moment. The callbacks hold the properties and the file of the drop
  that started the parse.
\<close>

definition papa_callback ::
  "env \<Rightarrow> CSVUploaderProps \<Rightarrow> File \<Rightarrow> uploader_state
     \<Rightarrow> (js_error + unit) \<times> uploader_state \<times> call list"
where
  "papa_callback e props file st =
     (case papa e file of
        Complete data \<Rightarrow> complete_callback e props file data st
      | Error message \<Rightarrow> error_callback message st)"

text \<open>
  A drop event that nothing overlaps: the handler, and then, when it has started a parse,
  the callback of that parse on the state the handler left.
\<close>

definition drop_event ::
  "env \<Rightarrow> CSVUploaderProps \<Rightarrow> File list \<Rightarrow> uploader_state
     \<Rightarrow> (js_error + unit) \<times> uploader_state \<times> call list"
where
  "drop_event e props acceptedFiles st0 =
     (case onDrop e props acceptedFiles st0 of
        (st, calls) \<Rightarrow>
          (case (acceptedFiles, calls) of
             (file # _, _ # _) \<Rightarrow>
               (case papa_callback e props file st of
                  (outcome, st', calls') \<Rightarrow> (outcome, st', calls @ calls'))
           | _ \<Rightarrow> (Inr (), st, calls)))"

text \<open>The state of a component that has just been mounted.\<close>

definition initial_state :: uploader_state where
  "initial_state =
     \<lparr>uploadedFileName = None, uploadedFileSize = None, errors = [], parsedData = [],
      fileError = None, showUploadedDataTable = False\<rparr>"

text \<open>The arguments of the calls of \<open>onUpload\<close> and of the batch \<open>validator\<close> in a trace.\<close>

fun uploaded :: "call list \<Rightarrow> row list list" where
  "uploaded [] = []"
| "uploaded (OnUpload rows # cs) = rows # uploaded cs"
| "uploaded (_ # cs) = uploaded cs"

fun batch_validated :: "call list \<Rightarrow> row list list" where
  "batch_validated [] = []"
| "batch_validated (BatchValidator rows # cs) = rows # batch_validated cs"
| "batch_validated (_ # cs) = batch_validated cs"

fun parse_calls :: "call list \<Rightarrow> (string \<times> nat) list" where
  "parse_calls [] = []"
| "parse_calls (PapaParse n s # cs) = (n, s) # parse_calls cs"
| "parse_calls (_ # cs) = parse_calls cs"

section \<open>The template export\<close>

text \<open>
  \<open>downloadTemplate\<close> builds an anchor element, sets two attributes and clicks it; the
  model returns the two attributes.
\<close>

record anchor =
  href :: string
  download :: string

definition headerRow :: "CSVUploaderProps \<Rightarrow> string" where
  "headerRow props = join '','' (map name (columnConfigs props))"

definition csvContent :: "CSVUploaderProps \<Rightarrow> string" where
  "csvContent props = ''data:text/csv;charset=utf-8,'' @ headerRow props @ [CHR 0x0A]"

definition downloadTemplate :: "env \<Rightarrow> CSVUploaderProps \<Rightarrow> anchor" where
  "downloadTemplate e props =
     \<lparr>href = encodeURI e (csvContent props), download = ''template.csv''\<rparr>"

section \<open>The validation pass, rule by rule\<close>

text \<open>
  What one rule contributes for one row, written without the accumulators: whether the
  lookup throws and, when it does not, whether the required check fails, whether the
  value check fails, the messages pushed and the calls made. The handler is compared
  with these below.
\<close>

definition spec_throws :: "row \<Rightarrow> ColumnConfig \<Rightarrow> bool" where
  "spec_throws row col = (get_property row (name col) = JSObject)"

definition spec_value :: "row \<Rightarrow> ColumnConfig \<Rightarrow> string option" where
  "spec_value row col =
     (case get_property row (name col) of JSString s \<Rightarrow> Some (trim s) | _ \<Rightarrow> None)"

definition spec_missing :: "row \<Rightarrow> ColumnConfig \<Rightarrow> bool" where
  "spec_missing row col = (required col \<and> \<not> truthy (spec_value row col))"

definition spec_invalid :: "row \<Rightarrow> ColumnConfig \<Rightarrow> bool" where
  "spec_invalid row col =
     (case (spec_value row col, validate col) of
        (Some val, Some f) \<Rightarrow> val \<noteq> [] \<and> \<not> f val
      | _ \<Rightarrow> False)"

definition spec_rule_messages :: "nat \<Rightarrow> row \<Rightarrow> ColumnConfig \<Rightarrow> string list" where
  "spec_rule_messages index row col =
     (if spec_missing row col then [missing_message index col] else [])
     @ (if spec_invalid row col then [invalid_message index col] else [])"

definition spec_rule_calls :: "row \<Rightarrow> ColumnConfig \<Rightarrow> call list" where
  "spec_rule_calls row col =
     (case (spec_value row col, validate col) of
        (Some val, Some f) \<Rightarrow> if val \<noteq> [] then [ColValidate (name col) val] else []
      | _ \<Rightarrow> [])"

definition spec_row_runs :: "ColumnConfig list \<Rightarrow> row \<Rightarrow> bool" where
  "spec_row_runs cols row = list_all (\<lambda>col. \<not> spec_throws row col) cols"

definition spec_row_messages :: "ColumnConfig list \<Rightarrow> nat \<Rightarrow> row \<Rightarrow> string list" where
  "spec_row_messages cols index row = concat (map (spec_rule_messages index row) cols)"

definition spec_row_calls :: "ColumnConfig list \<Rightarrow> row \<Rightarrow> call list" where
  "spec_row_calls cols row = concat (map (spec_rule_calls row) cols)"

definition spec_row_passes :: "ColumnConfig list \<Rightarrow> row \<Rightarrow> bool" where
  "spec_row_passes cols row =
     list_all (\<lambda>col. \<not> spec_throws row col \<and> \<not> spec_missing row col \<and> \<not> spec_invalid row col)
       cols"

section \<open>Example inputs\<close>

text \<open>The check \<open>v => /^\d+$/.test(v)\<close>: one or more characters, all of them decimal digits.\<close>

definition digits_only :: "string \<Rightarrow> bool" where
  "digits_only v = (v \<noteq> [] \<and> list_all (\<lambda>c. c \<in> set ''0123456789'') v)"

definition rule_id :: ColumnConfig where
  "rule_id = \<lparr>name = ''id'', required = True, validate = None, description = None\<rparr>"

definition rule_age :: ColumnConfig where
  "rule_age = \<lparr>name = ''age'', required = False, validate = Some digits_only, description = None\<rparr>"

text \<open>An optional column whose name is also the name of a property of \<open>Object.prototype\<close>.\<close>

definition rule_constructor :: ColumnConfig where
  "rule_constructor =
     \<lparr>name = ''constructor'', required = False, validate = None, description = None\<rparr>"

text \<open>The component's defaults: no size limit, a batch validator that returns \<open>null\<close>.\<close>

definition default_props :: CSVUploaderProps where
  "default_props = \<lparr>columnConfigs = [], maxSizeMB = None, validator = (\<lambda>data. None)\<rparr>"

text \<open>A batch validator that accepts at most one row.\<close>

definition limit_rows :: "row list \<Rightarrow> string option" where
  "limit_rows data = (if length data > 1 then Some ''Too many rows.'' else None)"

text \<open>A parser with a fixed outcome; the two built-ins are stand-ins.\<close>

definition env_of :: "parse_outcome \<Rightarrow> env" where
  "env_of outcome =
     \<lparr>papa = (\<lambda>file. outcome), toFixed = (\<lambda>digits x. ''0''), encodeURI = (\<lambda>uri. uri)\<rparr>"

definition file_csv :: File where
  "file_csv = \<lparr>file_name = ''data.csv'', file_size = 2097153\<rparr>"

definition small_csv :: File where
  "small_csv = \<lparr>file_name = ''small.csv'', file_size = 12\<rparr>"

text \<open>A limit of 2 MB: \<open>small.csv\<close> is below it and \<open>data.csv\<close> is one byte above it.\<close>

definition limit_props :: CSVUploaderProps where
  "limit_props = default_props\<lparr>columnConfigs := [rule_id], maxSizeMB := Some 2\<rparr>"

text \<open>
  Two drops that overlap: \<open>small.csv\<close>, whose one row has no \<open>id\<close>, is dropped and its
  parse starts; \<open>data.csv\<close> is dropped before the parser calls back; then the parser calls
  back for \<open>small.csv\<close>. The state after the three events.
\<close>

definition overlapped_drops :: uploader_state where
  "overlapped_drops =
     (let e = env_of (Complete [[''name'' \<mapsto> Str ''Bob'']]);
          (st1, calls1) = onDrop e limit_props [small_csv] initial_state;
          (st2, calls2) = onDrop e limit_props [file_csv] st1;
          (outcome, st3, calls3) = papa_callback e limit_props small_csv st2
      in st3)"

section \<open>Evaluation of the decimal numerals used below\<close>

lemma string_of_nat_digit: "n < 10 \<Longrightarrow> string_of_nat n = [''0123456789'' ! n]"
  by (simp add: string_of_nat.simps [of n])

lemma string_of_nat_2: "string_of_nat 2 = ''2''" "string_of_nat (Suc (Suc 0)) = ''2''"
  by (simp_all add: string_of_nat_digit)

lemma string_of_nat_3: "string_of_nat 3 = ''3''" "string_of_nat (Suc (Suc (Suc 0))) = ''3''"
  by (simp_all add: string_of_nat_digit)

lemma string_of_nat_4: "string_of_nat 4 = ''4''"
  "string_of_nat (Suc (Suc (Suc (Suc 0)))) = ''4''"
  by (simp_all add: string_of_nat_digit)

section \<open>The handler and the rule-by-rule account agree\<close>

lemma check_col_eq:
  "check_col index row col (allErrors, valid, calls) =
     (if spec_throws row col then (Inl TypeError, allErrors, valid, calls)
      else (Inr (), allErrors @ spec_rule_messages index row col,
            valid \<and> \<not> spec_missing row col \<and> \<not> spec_invalid row col,
            calls @ spec_rule_calls row col))"
  by (cases "get_property row (name col)"; cases "validate col")
     (auto simp: Let_def optional_trim_def spec_throws_def spec_value_def
        spec_rule_messages_def spec_missing_def spec_invalid_def spec_rule_calls_def)

lemma spec_rule_calls_throws: "spec_throws row col \<Longrightarrow> spec_rule_calls row col = []"
  by (simp add: spec_throws_def spec_rule_calls_def spec_value_def)

lemma check_col_calls_eq:
  "snd (snd (snd (check_col index row col (allErrors, valid, calls))))
     = calls @ spec_rule_calls row col"
  by (simp add: check_col_eq spec_rule_calls_throws del: check_col.simps)

lemma for_each_check_col_runs:
  "spec_row_runs cols row \<Longrightarrow>
   for_each (check_col index row) cols (allErrors, valid, calls) =
     (Inr (), allErrors @ spec_row_messages cols index row,
      valid \<and> spec_row_passes cols row,
      calls @ spec_row_calls cols row)"
proof (induction cols arbitrary: allErrors valid calls)
  case Nil
  show ?case by (simp add: spec_row_messages_def spec_row_passes_def spec_row_calls_def)
next
  case (Cons col cols)
  from Cons.prems have "\<not> spec_throws row col" and "spec_row_runs cols row"
    by (simp_all add: spec_row_runs_def)
  then show ?case
    by (simp add: check_col_eq Cons.IH spec_row_messages_def spec_row_passes_def
          spec_row_calls_def del: check_col.simps)
qed

lemma for_each_check_col_throws:
  "\<not> spec_row_runs cols row \<Longrightarrow>
   fst (for_each (check_col index row) cols (allErrors, valid, calls)) = Inl TypeError"
proof (induction cols arbitrary: allErrors valid calls)
  case Nil
  then show ?case by (simp add: spec_row_runs_def)
next
  case (Cons col cols)
  show ?case
  proof (cases "spec_throws row col")
    case True
    then show ?thesis by (simp add: check_col_eq del: check_col.simps)
  next
    case False
    with Cons.prems have "\<not> spec_row_runs cols row" by (simp add: spec_row_runs_def)
    with False show ?thesis
      by (simp add: check_col_eq Cons.IH del: check_col.simps)
  qed
qed

lemma check_row_runs:
  "spec_row_runs cols row \<Longrightarrow>
   check_row cols index row (allErrors, calls) =
     (Inr (spec_row_passes cols row), allErrors @ spec_row_messages cols index row,
      calls @ spec_row_calls cols row)"
  by (simp add: check_row_def for_each_check_col_runs)

lemma check_row_throws:
  "\<not> spec_row_runs cols row \<Longrightarrow>
   fst (check_row cols index row (allErrors, calls)) = Inl TypeError"
proof -
  assume "\<not> spec_row_runs cols row"
  from for_each_check_col_throws [OF this, of index allErrors True calls]
  show ?thesis
    by (cases "for_each (check_col index row) cols (allErrors, True, calls)")
       (auto simp: check_row_def)
qed

lemma filter_rows_runs:
  "list_all (spec_row_runs cols) data \<Longrightarrow>
   filter_rows cols index data (allErrors, calls) =
     (Inr (filter (spec_row_passes cols) data),
      allErrors @ concat (map (\<lambda>(i, row). spec_row_messages cols i row) (enumerate index data)),
      calls @ concat (map (spec_row_calls cols) data))"
  by (induction data arbitrary: index allErrors calls) (simp_all add: check_row_runs)

lemma filter_rows_throws:
  "\<not> list_all (spec_row_runs cols) data \<Longrightarrow>
   fst (filter_rows cols index data (allErrors, calls)) = Inl TypeError"
proof (induction data arbitrary: index allErrors calls)
  case Nil
  then show ?case by simp
next
  case (Cons row rows)
  show ?case
  proof (cases "spec_row_runs cols row")
    case False
    from check_row_throws [OF this, of index allErrors calls] show ?thesis
      by (cases "check_row cols index row (allErrors, calls)") auto
  next
    case True
    with Cons.prems have r: "\<not> list_all (spec_row_runs cols) rows" by simp
    show ?thesis
      using Cons.IH [OF r,
          of "index + 1" "allErrors @ spec_row_messages cols index row"
             "calls @ spec_row_calls cols row"]
      by (cases "filter_rows cols (index + 1) rows
                   (allErrors @ spec_row_messages cols index row,
                    calls @ spec_row_calls cols row)")
         (auto simp: check_row_runs [OF True])
  qed
qed

text \<open>A pass that returns has run every rule on every row.\<close>

lemma filter_rows_returns:
  assumes "filter_rows cols index data (allErrors, calls) = (Inr validated, allErrors', calls')"
  shows "list_all (spec_row_runs cols) data"
    and "validated = filter (spec_row_passes cols) data"
    and "allErrors' = allErrors
           @ concat (map (\<lambda>(i, row). spec_row_messages cols i row) (enumerate index data))"
    and "calls' = calls @ concat (map (spec_row_calls cols) data)"
proof -
  show r: "list_all (spec_row_runs cols) data"
  proof (rule ccontr)
    assume "\<not> list_all (spec_row_runs cols) data"
    from filter_rows_throws [OF this, of index allErrors calls] assms show False by simp
  qed
  from assms show "validated = filter (spec_row_passes cols) data"
    and "allErrors' = allErrors
           @ concat (map (\<lambda>(i, row). spec_row_messages cols i row) (enumerate index data))"
    and "calls' = calls @ concat (map (spec_row_calls cols) data)"
    unfolding filter_rows_runs [OF r] by simp_all
qed

subsection \<open>The calls of the validation pass, whether it returns or throws\<close>

lemma spec_rule_calls_member:
  "c \<in> set (spec_rule_calls row col) \<Longrightarrow>
   \<exists>raw. row (name col) = Some (Str raw) \<and> trim raw \<noteq> [] \<and> validate col \<noteq> None
     \<and> c = ColValidate (name col) (trim raw)"
  by (cases "row (name col)"; cases "validate col")
     (auto simp: spec_rule_calls_def spec_value_def get_property_def
        split: if_splits cell.splits)

lemma for_each_check_col_calls:
  "\<exists>cs. snd (snd (snd (for_each (check_col index row) cols (allErrors, valid, calls))))
          = calls @ cs
        \<and> set cs \<subseteq> (\<Union>col \<in> set cols. set (spec_rule_calls row col))"
proof (induction cols arbitrary: allErrors valid calls)
  case Nil
  show ?case by simp
next
  case (Cons col cols)
  show ?case
  proof (cases "spec_throws row col")
    case True
    then show ?thesis by (simp add: check_col_eq del: check_col.simps)
  next
    case False
    from Cons.IH [of "allErrors @ spec_rule_messages index row col"
        "valid \<and> \<not> spec_missing row col \<and> \<not> spec_invalid row col"
        "calls @ spec_rule_calls row col"]
    obtain cs where
      "snd (snd (snd (for_each (check_col index row) cols
          (allErrors @ spec_rule_messages index row col,
           valid \<and> \<not> spec_missing row col \<and> \<not> spec_invalid row col,
           calls @ spec_rule_calls row col))))
        = (calls @ spec_rule_calls row col) @ cs"
      and "set cs \<subseteq> (\<Union>col \<in> set cols. set (spec_rule_calls row col))"
      by blast
    with False show ?thesis
      by (intro exI [of _ "spec_rule_calls row col @ cs"])
         (auto simp: check_col_eq simp del: check_col.simps)
  qed
qed

lemma check_row_calls:
  "\<exists>cs. snd (snd (check_row cols index row (allErrors, calls))) = calls @ cs
        \<and> set cs \<subseteq> (\<Union>col \<in> set cols. set (spec_rule_calls row col))"
proof -
  from for_each_check_col_calls [of index row cols allErrors True calls]
  obtain cs where
    "snd (snd (snd (for_each (check_col index row) cols (allErrors, True, calls)))) = calls @ cs"
    and "set cs \<subseteq> (\<Union>col \<in> set cols. set (spec_rule_calls row col))"
    by blast
  then show ?thesis
    by (intro exI [of _ cs])
       (cases "for_each (check_col index row) cols (allErrors, True, calls)",
        auto simp: check_row_def split: sum.splits)
qed

lemma filter_rows_calls:
  "\<exists>cs. snd (snd (filter_rows cols index data (allErrors, calls))) = calls @ cs
        \<and> set cs \<subseteq> (\<Union>row \<in> set data. \<Union>col \<in> set cols. set (spec_rule_calls row col))"
proof (induction data arbitrary: index allErrors calls)
  case Nil
  show ?case by simp
next
  case (Cons row rows)
  obtain outcome allErrors' calls' where
    r: "check_row cols index row (allErrors, calls) = (outcome, allErrors', calls')"
    by (cases "check_row cols index row (allErrors, calls)") auto
  with check_row_calls [of cols index row allErrors calls]
  obtain cs where cs: "calls' = calls @ cs"
    and sub: "set cs \<subseteq> (\<Union>col \<in> set cols. set (spec_rule_calls row col))"
    by auto
  show ?case
  proof (cases outcome)
    case (Inl err)
    with r cs sub show ?thesis by (intro exI [of _ cs]) auto
  next
    case (Inr valid)
    from Cons.IH [of "index + 1" allErrors' calls']
    obtain ds where
      ds: "snd (snd (filter_rows cols (index + 1) rows (allErrors', calls'))) = calls' @ ds"
      and subd: "set ds \<subseteq> (\<Union>row \<in> set rows. \<Union>col \<in> set cols. set (spec_rule_calls row col))"
      by blast
    from r Inr cs sub ds subd show ?thesis
      by (intro exI [of _ "cs @ ds"])
         (cases "filter_rows cols (index + 1) rows (allErrors', calls @ cs)",
          auto split: sum.splits)
  qed
qed

lemma validate_calls_only:
  "set cs \<subseteq> (\<Union>row \<in> set data. \<Union>col \<in> set cols. set (spec_rule_calls row col))
   \<Longrightarrow> uploaded cs = [] \<and> batch_validated cs = [] \<and> parse_calls cs = []"
proof (induction cs)
  case Nil
  show ?case by simp
next
  case (Cons c cs)
  then obtain row col where "c \<in> set (spec_rule_calls row col)" by auto
  then obtain raw where "c = ColValidate (name col) (trim raw)"
    using spec_rule_calls_member by blast
  with Cons show ?case by simp
qed

lemma uploaded_append: "uploaded (xs @ ys) = uploaded xs @ uploaded ys"
  by (induction xs rule: uploaded.induct) simp_all

lemma batch_validated_append:
  "batch_validated (xs @ ys) = batch_validated xs @ batch_validated ys"
  by (induction xs rule: batch_validated.induct) simp_all

lemma parse_calls_append: "parse_calls (xs @ ys) = parse_calls xs @ parse_calls ys"
  by (induction xs rule: parse_calls.induct) simp_all

lemma filter_rows_validate_calls:
  assumes "filter_rows cols 0 data ([], []) = (outcome, allErrors, calls)"
  shows "uploaded calls = []" and "batch_validated calls = []" and "parse_calls calls = []"
proof -
  from filter_rows_calls [of cols 0 data "[]" "[]"] assms
  have "set calls \<subseteq> (\<Union>row \<in> set data. \<Union>col \<in> set cols. set (spec_rule_calls row col))"
    by auto
  from validate_calls_only [OF this]
  show "uploaded calls = []" and "batch_validated calls = []" and "parse_calls calls = []"
    by simp_all
qed

subsection \<open>When no message is pushed, every row is kept\<close>




section \<open>The complete callback\<close>

lemma complete_callback_throws:
  "filter_rows (columnConfigs props) 0 data ([], []) = (Inl err, allErrors, calls) \<Longrightarrow>
   complete_callback e props f data st = (Inl err, st, calls)"
  by (simp add: complete_callback_def)

lemma complete_callback_row_errors:
  "filter_rows (columnConfigs props) 0 data ([], []) = (Inr validated, allErrors, calls) \<Longrightarrow>
   allErrors \<noteq> [] \<Longrightarrow>
   complete_callback e props f data st = (Inr (), st\<lparr>errors := allErrors\<rparr>, calls)"
  by (simp add: complete_callback_def)

lemma complete_callback_fileError:
  "fileError (fst (snd (complete_callback e props f data st))) = fileError st"
  by (simp add: complete_callback_def Let_def split: prod.splits sum.splits)

lemma complete_callback_exclusive:
  "errors (fst (snd (complete_callback e props f data st))) = errors st
   \<or> (uploaded (snd (snd (complete_callback e props f data st))) = []
      \<and> parsedData (fst (snd (complete_callback e props f data st))) = parsedData st)"
proof -
  obtain outcome allErrors calls where
    p: "filter_rows (columnConfigs props) 0 data ([], []) = (outcome, allErrors, calls)"
    by (cases "filter_rows (columnConfigs props) 0 data ([], [])") auto
  from filter_rows_validate_calls(1) [OF p] have u: "uploaded calls = []" .
  show ?thesis
    by (cases outcome) (auto simp: complete_callback_def p u Let_def uploaded_append)
qed

section \<open>The ways through the drop handler\<close>

lemma onDrop_no_file:
  "onDrop e props [] st0 = (st0\<lparr>errors := [], fileError := None\<rparr>, [])"
  by (simp add: onDrop_def)

lemma onDrop_too_large:
  "too_large props f \<Longrightarrow>
   onDrop e props (f # fs) st0 =
     (st0\<lparr>errors := [],
         fileError := Some (''File exceeds maximum size of ''
                            @ toFixed e 2 (the (maxSize props) / 1024 / 1024) @ ''MB.'')\<rparr>, [])"
  by (simp add: onDrop_def)

lemma onDrop_parse:
  "\<not> too_large props f \<Longrightarrow>
   onDrop e props (f # fs) st0 =
     (st0\<lparr>errors := [], fileError := None\<rparr>, [PapaParse (file_name f) (file_size f)])"
  by (simp add: onDrop_def)

lemma onDrop_errors: "errors (fst (onDrop e props acceptedFiles st0)) = []"
  by (cases acceptedFiles) (simp_all add: onDrop_def Let_def)

lemma drop_event_no_file:
  "drop_event e props [] st0 = (Inr (), st0\<lparr>errors := [], fileError := None\<rparr>, [])"
  by (simp add: drop_event_def onDrop_no_file)

lemma drop_event_too_large:
  "too_large props f \<Longrightarrow>
   drop_event e props (f # fs) st0 =
     (Inr (), st0\<lparr>errors := [],
         fileError := Some (''File exceeds maximum size of ''
                            @ toFixed e 2 (the (maxSize props) / 1024 / 1024) @ ''MB.'')\<rparr>, [])"
  by (simp add: drop_event_def onDrop_too_large)

lemma drop_event_parse:
  "\<not> too_large props f \<Longrightarrow>
   drop_event e props (f # fs) st0 =
     (fst (papa_callback e props f (st0\<lparr>errors := [], fileError := None\<rparr>)),
      fst (snd (papa_callback e props f (st0\<lparr>errors := [], fileError := None\<rparr>))),
      PapaParse (file_name f) (file_size f)
        # snd (snd (papa_callback e props f (st0\<lparr>errors := [], fileError := None\<rparr>))))"
  by (simp add: drop_event_def onDrop_parse split: prod.splits)

lemma papa_callback_exclusive:
  "errors (fst (snd (papa_callback e props f st))) = errors st
   \<or> (uploaded (snd (snd (papa_callback e props f st))) = []
      \<and> parsedData (fst (snd (papa_callback e props f st))) = parsedData st)"
  by (cases "papa e f")
     (simp_all add: papa_callback_def complete_callback_exclusive error_callback_def)

lemma drop_event_exclusive:
  "errors (fst (snd (drop_event e props acceptedFiles st0))) = []
   \<or> (uploaded (snd (snd (drop_event e props acceptedFiles st0))) = []
      \<and> parsedData (fst (snd (drop_event e props acceptedFiles st0))) = parsedData st0)"
proof (cases acceptedFiles)
  case Nil
  then show ?thesis by (simp add: drop_event_no_file)
next
  case (Cons f fs)
  show ?thesis
  proof (cases "too_large props f")
    case True
    with Cons show ?thesis by (simp add: drop_event_too_large)
  next
    case False
    from papa_callback_exclusive [of e props f "st0\<lparr>errors := [], fileError := None\<rparr>"]
    show ?thesis unfolding Cons drop_event_parse [OF False] by simp
  qed
qed

section \<open>What one rule does when its lookup does not throw\<close>

lemma check_col_missing:
  assumes "required col"
    and "get_property row (name col) = JSUndefined
         \<or> (\<exists>s. row (name col) = Some (Str s) \<and> trim s = [])"
  shows "check_col n row col (allErrors, valid, calls)
      = (Inr (), allErrors @ [''Row '' @ string_of_nat (n + 2) @ '': Missing required field \"''
                              @ name col @ ''\".''], False, calls)"
proof -
  from assms(2) consider "get_property row (name col) = JSUndefined"
    | s where "get_property row (name col) = JSString s" and "trim s = []"
    by (auto simp: get_property_def)
  then show ?thesis
    using assms(1) by cases (simp_all add: optional_trim_def missing_message_def)
qed

lemma check_col_invalid:
  assumes "row (name col) = Some (Str s)" and "trim s \<noteq> []"
    and "validate col = Some v" and "\<not> v (trim s)"
  shows "check_col n row col (allErrors, valid, calls)
      = (Inr (), allErrors @ [''Row '' @ string_of_nat (n + 2) @ '': Invalid value in \"''
                              @ name col @ ''\".''], False,
         calls @ [ColValidate (name col) (trim s)])"
proof -
  from assms(1) have "get_property row (name col) = JSString s"
    by (simp add: get_property_def)
  with assms(2-4) show ?thesis
    by (simp add: optional_trim_def invalid_message_def)
qed

lemma check_col_messages:
  "\<not> spec_throws row col \<Longrightarrow>
   fst (snd (check_col index row col ([], True, []))) = spec_rule_messages index row col"
  by (simp add: check_col_eq del: check_col.simps)

text \<open>A pass that returns has pushed its messages row by row and, within a row, rule by rule.\<close>

lemma filter_rows_order:
  assumes "filter_rows cols 0 data ([], []) = (Inr validated, allErrors, calls)"
  shows "allErrors
      = concat (map (\<lambda>(index, row).
                  concat (map (\<lambda>col. fst (snd (check_col index row col ([], True, [])))) cols))
          (enumerate 0 data))"
proof -
  from filter_rows_returns [OF assms]
  have r: "list_all (spec_row_runs cols) data"
    and m: "allErrors
      = [] @ concat (map (\<lambda>(i, row). spec_row_messages cols i row) (enumerate 0 data))"
    by blast+
  have eq: "concat (map (\<lambda>col. fst (snd (check_col index row col ([], True, [])))) cols)
      = spec_row_messages cols index row" if "spec_row_runs cols row" for index row
  proof -
    from that have "map (\<lambda>col. fst (snd (check_col index row col ([], True, [])))) cols
        = map (spec_rule_messages index row) cols"
      by (intro map_cong refl check_col_messages) (simp add: spec_row_runs_def list_all_iff)
    then show ?thesis by (simp only: spec_row_messages_def)
  qed
  have "map (\<lambda>(index, row).
        concat (map (\<lambda>col. fst (snd (check_col index row col ([], True, [])))) cols))
      (enumerate 0 data)
    = map (\<lambda>(i, row). spec_row_messages cols i row) (enumerate 0 data)"
  proof (intro map_cong refl)
    fix p
    assume "p \<in> set (enumerate 0 data)"
    then have "fst p < length data" and "data ! fst p = snd p"
      by (simp_all add: in_set_enumerate_eq)
    then have "snd p \<in> set data" by (metis nth_mem)
    with r have "spec_row_runs cols (snd p)" by (simp add: list_all_iff)
    from eq [OF this, of "fst p"]
    show "(case p of (index, row) \<Rightarrow>
              concat (map (\<lambda>col. fst (snd (check_col index row col ([], True, [])))) cols))
        = (case p of (i, row) \<Rightarrow> spec_row_messages cols i row)"
      by (simp only: case_prod_beta)
  qed
  with m show ?thesis by (simp only: append_Nil)
qed

lemmas example_defs = check_row_def missing_message_def invalid_message_def
  string_of_nat_2 string_of_nat_3 string_of_nat_4 trim_def is_white_space_def
  get_property_def optional_trim_def object_prototype_keys_def rule_id_def rule_age_def
  rule_constructor_def default_props_def env_of_def file_csv_def small_csv_def
  limit_props_def digits_only_def initial_state_def limit_rows_def

text \<open>The two scenarios of the specification, in which no lookup throws.\<close>

lemma scenario_missing_id:
  "complete_callback e (props\<lparr>columnConfigs := [rule_id]\<rparr>) f
     [[''id'' \<mapsto> Str ''1''], [''id'' \<mapsto> Str '''']] st
   = (Inr (), st\<lparr>errors := [''Row 3: Missing required field \"id\".'']\<rparr>, [])"
  by (simp add: complete_callback_def example_defs)

lemma scenario_invalid_age:
  "complete_callback e (props\<lparr>columnConfigs := [rule_age]\<rparr>) f [[''age'' \<mapsto> Str ''abc'']] st
   = (Inr (), st\<lparr>errors := [''Row 2: Invalid value in \"age\".'']\<rparr>,
      [ColValidate ''age'' ''abc''])"
  by (simp add: complete_callback_def example_defs)

subsection \<open>\<open>Array.prototype.join\<close>\<close>

lemma join_Nil: "join sep [] = []"
  by (simp add: join_def)

lemma join_single: "join sep [x] = x"
  by (simp add: join_def)

lemma join_Cons_Cons: "join sep (x # y # ys) = x @ sep @ join sep (y # ys)"
  by (simp add: join_def)

lemma set_join: "set (join sep xs) \<subseteq> set sep \<union> \<Union> (set ` set xs)"
  by (cases xs) (auto simp: join_def)

section \<open>Claims\<close>

text \<open>
  C1. The claim: for every list of parsed rows and every rule list, when the per-row pass
  collects at least one message, the reported outcome is exactly the collected list and
  nothing is accepted. The handler does this whenever the pass returns
  (\<open>complete_callback_row_errors\<close>, \<open>drop_event_exclusive\<close>), but not here: with the
  required rule \<open>id\<close> followed by the optional rule \<open>constructor\<close> and the one row
  \<open>{id: "", name: "Bob"}\<close>, the pass pushes the message for \<open>id\<close>, then
  \<open>row["constructor"]?.trim()\<close> finds the function inherited from \<open>Object.prototype\<close> and
  throws a \<open>TypeError\<close>. The callback ends there: \<open>setErrors\<close> is not reached and \<open>errors\<close>
  stays empty.
\<close>

theorem row_errors_lost_on_type_error:
  "filter_rows [rule_id, rule_constructor] 0
      [[''id'' \<mapsto> Str '''', ''name'' \<mapsto> Str ''Bob'']] ([], [])
     = (Inl TypeError, [''Row 2: Missing required field \"id\".''], [])
   \<and> complete_callback e (props\<lparr>columnConfigs := [rule_id, rule_constructor]\<rparr>) f
        [[''id'' \<mapsto> Str '''', ''name'' \<mapsto> Str ''Bob'']] st
     = (Inl TypeError, st, [])
   \<and> drop_event (env_of (Complete [[''id'' \<mapsto> Str '''', ''name'' \<mapsto> Str ''Bob'']]))
        (default_props\<lparr>columnConfigs := [rule_id, rule_constructor]\<rparr>) [small_csv]
        initial_state
     = (Inl TypeError, initial_state, [PapaParse ''small.csv'' 12])"
  by (simp add: complete_callback_def drop_event_def onDrop_def papa_callback_def
        too_large_def maxSize_def example_defs)

text \<open>
  C2. The claim: for every row and every required rule, when the row has no value under
  the rule's name, exactly one message \<open>Row <n+2>: Missing required field "<name>".\<close> is
  emitted and the row is marked invalid. The handler does this when the lookup gives
  \<open>undefined\<close> or a string (\<open>check_col_missing\<close>, \<open>scenario_missing_id\<close>), but not here:
  for a required rule named \<open>constructor\<close> and a row without that column, the lookup
  finds the function inherited from \<open>Object.prototype\<close> and the call of \<open>trim\<close> throws a
  \<open>TypeError\<close>. No message is pushed, \<open>valid\<close> is not changed and the callback ends.
\<close>

theorem missing_inherited_name_throws:
  "check_col n [''id'' \<mapsto> Str ''1''] (rule_constructor\<lparr>required := True\<rparr>)
      (allErrors, valid, calls)
     = (Inl TypeError, allErrors, valid, calls)
   \<and> complete_callback e (props\<lparr>columnConfigs := [rule_constructor\<lparr>required := True\<rparr>]\<rparr>) f
        [[''id'' \<mapsto> Str ''1'']] st
     = (Inl TypeError, st, [])"
  by (simp add: complete_callback_def example_defs)

text \<open>
  C3. The claim: for every row and every rule with a \<open>validate\<close> function, when the
  trimmed value is present and the function returns false on it, the message
  \<open>Row <n+2>: Invalid value in "<name>".\<close> is emitted and the row is marked invalid. The
  handler does this when the rule is reached (\<open>check_col_invalid\<close>,
  \<open>scenario_invalid_age\<close>), but not here: with the optional rule \<open>constructor\<close> before the
  rule \<open>age\<close> and the one row \<open>{age: "abc"}\<close>, the lookup for \<open>constructor\<close> throws a
  \<open>TypeError\<close> first. The rule \<open>age\<close> is not evaluated, \<open>validate\<close> is not called, no
  message is pushed or reported.
\<close>

theorem invalid_value_unreached_after_type_error:
  "\<not> digits_only (trim ''abc'')
   \<and> filter_rows [rule_constructor, rule_age] 0 [[''age'' \<mapsto> Str ''abc'']] ([], [])
     = (Inl TypeError, [], [])
   \<and> complete_callback e (props\<lparr>columnConfigs := [rule_constructor, rule_age]\<rparr>) f
        [[''age'' \<mapsto> Str ''abc'']] st
     = (Inl TypeError, st, [])"
  by (simp add: complete_callback_def example_defs)

text \<open>
  C4. The batch validator is called only when the per-row pass has returned without a
  message, and then once, with the rows that \<open>data.filter\<close> kept; when the pass has pushed
  a message or has thrown, it is not called. If it returns a non-empty string, \<open>errors\<close>
  becomes the list of that one string and \<open>onUpload\<close> is not called.
\<close>

theorem batch_validator_once:
  "filter_rows (columnConfigs props) 0 data ([], []) = (outcome, allErrors, calls)
   \<longrightarrow> batch_validated (snd (snd (complete_callback e props f data st)))
         = (case outcome of
              Inl err \<Rightarrow> []
            | Inr validated \<Rightarrow> if allErrors = [] then [validated] else [])
       \<and> (outcome = Inr validated \<and> allErrors = []
            \<and> validator props validated = Some msg \<and> msg \<noteq> []
          \<longrightarrow> complete_callback e props f data st
                = (Inr (), st\<lparr>errors := [msg]\<rparr>, calls @ [BatchValidator validated])
              \<and> uploaded (snd (snd (complete_callback e props f data st))) = [])"
proof (intro conjI impI)
  assume h: "filter_rows (columnConfigs props) 0 data ([], []) = (outcome, allErrors, calls)"
  from filter_rows_validate_calls [OF h]
  have u: "uploaded calls = []" and b: "batch_validated calls = []" by simp_all
  from h b show "batch_validated (snd (snd (complete_callback e props f data st)))
      = (case outcome of
           Inl err \<Rightarrow> []
         | Inr validated \<Rightarrow> if allErrors = [] then [validated] else [])"
    by (cases outcome) (simp_all add: complete_callback_def Let_def batch_validated_append)
  assume v: "outcome = Inr validated \<and> allErrors = []
      \<and> validator props validated = Some msg \<and> msg \<noteq> []"
  with h show c: "complete_callback e props f data st
      = (Inr (), st\<lparr>errors := [msg]\<rparr>, calls @ [BatchValidator validated])"
    by (simp add: complete_callback_def)
  from u show "uploaded (snd (snd (complete_callback e props f data st))) = []"
    unfolding c by (simp add: uploaded_append)
qed

text \<open>
  Two rows that pass the rule, rejected by a batch validator that allows one row; and a
  pass that throws, after which the validator is not called.
\<close>

theorem batch_validator_once_witness:
  "complete_callback (env_of (Error []))
        (default_props\<lparr>columnConfigs := [rule_id], validator := limit_rows\<rparr>) file_csv
        [[''id'' \<mapsto> Str ''1''], [''id'' \<mapsto> Str ''2'']] initial_state
     = (Inr (), initial_state\<lparr>errors := [''Too many rows.'']\<rparr>,
        [BatchValidator [[''id'' \<mapsto> Str ''1''], [''id'' \<mapsto> Str ''2'']]])
   \<and> batch_validated (snd (snd (complete_callback (env_of (Error []))
        (default_props\<lparr>columnConfigs := [rule_constructor], validator := limit_rows\<rparr>)
        file_csv [[''id'' \<mapsto> Str ''1'']] initial_state))) = []"
  using batch_validator_once [where
      props = "default_props\<lparr>columnConfigs := [rule_id], validator := limit_rows\<rparr>"
      and data = "[[''id'' \<mapsto> Str ''1''], [''id'' \<mapsto> Str ''2'']]"
      and outcome = "Inr [[''id'' \<mapsto> Str ''1''], [''id'' \<mapsto> Str ''2'']]"
      and validated = "[[''id'' \<mapsto> Str ''1''], [''id'' \<mapsto> Str ''2'']]"
      and allErrors = "[]" and calls = "[]" and msg = "''Too many rows.''"
      and e = "env_of (Error [])" and f = file_csv and st = initial_state]
    batch_validator_once [where
      props = "default_props\<lparr>columnConfigs := [rule_constructor], validator := limit_rows\<rparr>"
      and data = "[[''id'' \<mapsto> Str ''1'']]" and outcome = "Inl TypeError"
      and validated = "[]" and allErrors = "[]" and calls = "[]" and msg = "''Too many rows.''"
      and e = "env_of (Error [])" and f = file_csv and st = initial_state]
  by (simp add: example_defs)



text \<open>
  C6. The claim: rows are evaluated in their order and, within each row, every rule is
  evaluated in the order of the rule list, which orders the collected messages by row and
  then by rule. A pass that returns has done so (\<open>filter_rows_order\<close>), but the handler
  does not evaluate every rule here: with the optional rule \<open>constructor\<close> before the
  required rule \<open>id\<close> and two rows without \<open>id\<close>, the lookup for \<open>constructor\<close> throws a
  \<open>TypeError\<close> on the first row. The rule \<open>id\<close>, which would push a message for the row,
  is not evaluated, and neither is the second row.
\<close>

theorem rules_after_type_error_not_evaluated:
  "filter_rows [rule_constructor, rule_id] 0
      [[''name'' \<mapsto> Str ''Bob''], [''name'' \<mapsto> Str ''Al'']] ([], [])
     = (Inl TypeError, [], [])
   \<and> check_col 0 [''name'' \<mapsto> Str ''Bob''] rule_id ([], True, [])
     = (Inr (), [''Row 2: Missing required field \"id\".''], False, [])
   \<and> filter_rows [rule_id] 0
      [[''name'' \<mapsto> Str ''Bob''], [''name'' \<mapsto> Str ''Al'']] ([], [])
     = (Inr [], [''Row 2: Missing required field \"id\".'',
                 ''Row 3: Missing required field \"id\".''], [])"
  by (simp add: example_defs)

text \<open>
  C7. The template export clicks an anchor whose \<open>download\<close> attribute is
  \<open>template.csv\<close> and whose \<open>href\<close> is \<open>encodeURI\<close> of the data URI prefix, the header
  row and one line feed. The header row is the names of the configured columns, each as
  it is, with one comma between neighbours: nothing for no column, the name for one
  column, and the first name, a comma and the header row of the rest otherwise. For the
  names \<open>id\<close> and \<open>age\<close> it is \<open>id,age\<close>. When no name holds a line feed the header row
  holds none, so the content is one line.
\<close>

theorem template_header:
  "download (downloadTemplate e props) = ''template.csv''
   \<and> href (downloadTemplate e props)
       = encodeURI e (''data:text/csv;charset=utf-8,'' @ headerRow props @ [CHR 0x0A])
   \<and> headerRow (props\<lparr>columnConfigs := []\<rparr>) = []
   \<and> headerRow (props\<lparr>columnConfigs := [c]\<rparr>) = name c
   \<and> headerRow (props\<lparr>columnConfigs := c # c' # cs\<rparr>)
       = name c @ '','' @ headerRow (props\<lparr>columnConfigs := c' # cs\<rparr>)
   \<and> (map name (columnConfigs props) = [''id'', ''age''] \<longrightarrow> headerRow props = ''id,age'')
   \<and> ((\<forall>col \<in> set (columnConfigs props). CHR 0x0A \<notin> set (name col))
        \<longrightarrow> CHR 0x0A \<notin> set (headerRow props))"
proof (intro conjI impI)
  show "download (downloadTemplate e props) = ''template.csv''"
    by (simp add: downloadTemplate_def)
  show "href (downloadTemplate e props)
      = encodeURI e (''data:text/csv;charset=utf-8,'' @ headerRow props @ [CHR 0x0A])"
    by (simp add: downloadTemplate_def csvContent_def)
  show "headerRow (props\<lparr>columnConfigs := []\<rparr>) = []"
    by (simp add: headerRow_def join_Nil)
  show "headerRow (props\<lparr>columnConfigs := [c]\<rparr>) = name c"
    by (simp add: headerRow_def join_single)
  show "headerRow (props\<lparr>columnConfigs := c # c' # cs\<rparr>)
      = name c @ '','' @ headerRow (props\<lparr>columnConfigs := c' # cs\<rparr>)"
    by (simp add: headerRow_def join_Cons_Cons)
next
  assume "map name (columnConfigs props) = [''id'', ''age'']"
  then show "headerRow props = ''id,age''"
    by (simp add: headerRow_def join_def)
next
  assume a: "\<forall>col \<in> set (columnConfigs props). CHR 0x0A \<notin> set (name col)"
  show "CHR 0x0A \<notin> set (headerRow props)"
  proof
    assume "CHR 0x0A \<in> set (headerRow props)"
    with set_join [of "'',''" "map name (columnConfigs props)"]
    have "CHR 0x0A \<in> set '','' \<union> \<Union> (set ` set (map name (columnConfigs props)))"
      unfolding headerRow_def by blast
    with a show False by auto
  qed
qed

text \<open>The rules \<open>id\<close> and \<open>age\<close>.\<close>

theorem template_header_witness:
  "download (downloadTemplate (env_of (Error []))
      (default_props\<lparr>columnConfigs := [rule_id, rule_age]\<rparr>)) = ''template.csv''
   \<and> headerRow (default_props\<lparr>columnConfigs := [rule_id, rule_age]\<rparr>) = ''id,age''
   \<and> CHR 0x0A \<notin> set (headerRow (default_props\<lparr>columnConfigs := [rule_id, rule_age]\<rparr>))
   \<and> csvContent (default_props\<lparr>columnConfigs := [rule_id, rule_age]\<rparr>)
       = ''data:text/csv;charset=utf-8,id,age'' @ [CHR 0x0A]"
  using template_header [where e = "env_of (Error [])"
      and props = "default_props\<lparr>columnConfigs := [rule_id, rule_age]\<rparr>"
      and c = rule_id and c' = rule_age and cs = "[]"]
  by (simp add: rule_id_def rule_age_def default_props_def csvContent_def headerRow_def
        join_def)

text \<open>
  C8, as the claim states it: whenever \<open>maxSizeMB\<close> is given and the size of the file is
  above \<open>maxSizeMB * 1024 * 1024\<close>, the handler sets \<open>fileError\<close> and does not call the
  parser. This fails for \<open>maxSizeMB = 0\<close>: \<open>maxSizeMB ? ... : null\<close> makes \<open>maxSize\<close> null,
  the size test is skipped and the parser is called.
\<close>

theorem size_limit_zero_counterexample:
  "\<not> (maxSizeMB (default_props\<lparr>maxSizeMB := Some 0\<rparr>) \<noteq> None
       \<and> of_nat (file_size file_csv)
           > the (maxSizeMB (default_props\<lparr>maxSizeMB := Some 0\<rparr>)) * 1024 * 1024
      \<longrightarrow> fileError (fst (onDrop (env_of (Complete [])) (default_props\<lparr>maxSizeMB := Some 0\<rparr>)
                 [file_csv] initial_state)) \<noteq> None
          \<and> parse_calls (snd (onDrop (env_of (Complete [])) (default_props\<lparr>maxSizeMB := Some 0\<rparr>)
                 [file_csv] initial_state)) = [])"
  by (simp add: onDrop_def too_large_def maxSize_def default_props_def env_of_def
        file_csv_def initial_state_def)

text \<open>
  C8, amended: when \<open>maxSizeMB\<close> is given and is not zero, and the size of the file is
  above \<open>maxSizeMB * 1024 * 1024\<close>, the handler sets \<open>fileError\<close> to the one size message,
  leaves \<open>errors\<close> empty and returns without any call; no parser callback follows, so the
  parser, the rules' \<open>validate\<close> functions, the batch validator and \<open>onUpload\<close> are not
  called. A \<open>maxSizeMB\<close> of zero counts as no limit: the handler does what it does when
  \<open>maxSizeMB\<close> is null, and hands any file to the parser.
\<close>

theorem size_limit_rejects_before_parsing:
  "(maxSizeMB props = Some mb \<and> mb \<noteq> 0 \<and> of_nat (file_size f) > mb * 1024 * 1024
    \<longrightarrow> onDrop e props (f # fs) st0
          = (st0\<lparr>errors := [],
                 fileError := Some (''File exceeds maximum size of ''
                                    @ toFixed e 2 (mb * 1024 * 1024 / 1024 / 1024) @ ''MB.'')\<rparr>,
             [])
        \<and> drop_event e props (f # fs) st0
          = (Inr (),
             st0\<lparr>errors := [],
                 fileError := Some (''File exceeds maximum size of ''
                                    @ toFixed e 2 (mb * 1024 * 1024 / 1024 / 1024) @ ''MB.'')\<rparr>,
             []))
   \<and> (maxSizeMB props = Some 0
    \<longrightarrow> onDrop e props acceptedFiles st0
          = onDrop e (props\<lparr>maxSizeMB := None\<rparr>) acceptedFiles st0
        \<and> onDrop e props (f # fs) st0
          = (st0\<lparr>errors := [], fileError := None\<rparr>, [PapaParse (file_name f) (file_size f)]))"
proof (intro conjI impI)
  assume "maxSizeMB props = Some mb \<and> mb \<noteq> 0 \<and> of_nat (file_size f) > mb * 1024 * 1024"
  then have t: "too_large props f" and m: "the (maxSize props) = mb * 1024 * 1024"
    by (simp_all add: too_large_def maxSize_def)
  show "onDrop e props (f # fs) st0
      = (st0\<lparr>errors := [],
             fileError := Some (''File exceeds maximum size of ''
                                @ toFixed e 2 (mb * 1024 * 1024 / 1024 / 1024) @ ''MB.'')\<rparr>,
         [])"
    by (simp add: onDrop_too_large [OF t] m)
  show "drop_event e props (f # fs) st0
      = (Inr (),
         st0\<lparr>errors := [],
             fileError := Some (''File exceeds maximum size of ''
                                @ toFixed e 2 (mb * 1024 * 1024 / 1024 / 1024) @ ''MB.'')\<rparr>,
         [])"
    by (simp add: drop_event_too_large [OF t] m)
next
  assume z: "maxSizeMB props = Some 0"
  then have n: "\<not> too_large props g" and n': "\<not> too_large (props\<lparr>maxSizeMB := None\<rparr>) g" for g
    by (simp_all add: too_large_def maxSize_def)
  show "onDrop e props acceptedFiles st0
      = onDrop e (props\<lparr>maxSizeMB := None\<rparr>) acceptedFiles st0"
    by (cases acceptedFiles) (simp_all add: onDrop_no_file onDrop_parse n n')
  show "onDrop e props (f # fs) st0
      = (st0\<lparr>errors := [], fileError := None\<rparr>, [PapaParse (file_name f) (file_size f)])"
    by (simp add: onDrop_parse n)
qed

text \<open>
  A limit of 2 MB and a file of 2097153 bytes, one byte above the limit; and the same file
  with a limit of zero.
\<close>

theorem size_limit_rejects_before_parsing_witness:
  "errors (fst (onDrop (env_of (Complete [[''id'' \<mapsto> Str '''']]))
      (default_props\<lparr>columnConfigs := [rule_id], maxSizeMB := Some 2\<rparr>) [file_csv]
      (initial_state\<lparr>errors := [''old'']\<rparr>))) = []
   \<and> fileError (fst (onDrop (env_of (Complete [[''id'' \<mapsto> Str '''']]))
      (default_props\<lparr>columnConfigs := [rule_id], maxSizeMB := Some 2\<rparr>) [file_csv]
      (initial_state\<lparr>errors := [''old'']\<rparr>))) \<noteq> None
   \<and> snd (onDrop (env_of (Complete [[''id'' \<mapsto> Str '''']]))
      (default_props\<lparr>columnConfigs := [rule_id], maxSizeMB := Some 2\<rparr>) [file_csv]
      (initial_state\<lparr>errors := [''old'']\<rparr>)) = []
   \<and> snd (snd (drop_event (env_of (Complete [[''id'' \<mapsto> Str '''']]))
      (default_props\<lparr>columnConfigs := [rule_id], maxSizeMB := Some 2\<rparr>) [file_csv]
      (initial_state\<lparr>errors := [''old'']\<rparr>))) = []
   \<and> onDrop (env_of (Complete [[''id'' \<mapsto> Str '''']]))
      (default_props\<lparr>columnConfigs := [rule_id], maxSizeMB := Some 0\<rparr>) [file_csv]
      (initial_state\<lparr>errors := [''old'']\<rparr>)
     = (initial_state, [PapaParse ''data.csv'' 2097153])"
  using size_limit_rejects_before_parsing [where
      props = "default_props\<lparr>columnConfigs := [rule_id], maxSizeMB := Some 2\<rparr>"
      and mb = 2 and f = file_csv and fs = "[]" and acceptedFiles = "[file_csv]"
      and e = "env_of (Complete [[''id'' \<mapsto> Str '''']])"
      and ?st0.0 = "initial_state\<lparr>errors := [''old'']\<rparr>"]
    size_limit_rejects_before_parsing [where
      props = "default_props\<lparr>columnConfigs := [rule_id], maxSizeMB := Some 0\<rparr>"
      and mb = 0 and f = file_csv and fs = "[]" and acceptedFiles = "[file_csv]"
      and e = "env_of (Complete [[''id'' \<mapsto> Str '''']])"
      and ?st0.0 = "initial_state\<lparr>errors := [''old'']\<rparr>"]
  by (simp add: default_props_def file_csv_def initial_state_def onDrop_def too_large_def
        maxSize_def)

text \<open>
  C9. A rule's \<open>validate\<close> function is called only with the trimmed value. For one rule
  and one row the calls added are: one call with the trimmed value when the row has a
  string under the rule's name that is not empty after trimming and the rule has a
  function, no call otherwise. Every call made by the per-row pass, whether it returns or
  throws, is such a call for some parsed row and some configured rule. Two functions that
  agree on the trimmed value give the same outcome, the same messages and the same
  \<open>valid\<close>, whatever they return on the raw value.
\<close>

theorem validate_sees_trimmed_value:
  "snd (snd (snd (check_col n row col (allErrors, valid, calls))))
     = calls @ (case (row (name col), validate col) of
                  (Some (Str raw), Some v) \<Rightarrow>
                    if trim raw \<noteq> [] then [ColValidate (name col) (trim raw)] else []
                | _ \<Rightarrow> [])
   \<and> (\<forall>c \<in> set (snd (snd (filter_rows cols index data ([], [])))).
         \<exists>row \<in> set data. \<exists>col \<in> set cols. \<exists>raw.
           row (name col) = Some (Str raw) \<and> trim raw \<noteq> [] \<and> validate col \<noteq> None
           \<and> c = ColValidate (name col) (trim raw))
   \<and> ((\<forall>raw. row (name col) = Some (Str raw) \<longrightarrow> v (trim raw) = w (trim raw))
        \<longrightarrow> check_col n row (col\<lparr>validate := Some v\<rparr>) (allErrors, valid, calls)
            = check_col n row (col\<lparr>validate := Some w\<rparr>) (allErrors, valid, calls))"
proof (intro conjI impI ballI)
  show "snd (snd (snd (check_col n row col (allErrors, valid, calls))))
     = calls @ (case (row (name col), validate col) of
                  (Some (Str raw), Some v) \<Rightarrow>
                    if trim raw \<noteq> [] then [ColValidate (name col) (trim raw)] else []
                | _ \<Rightarrow> [])"
    unfolding check_col_calls_eq
    by (cases "row (name col)"; cases "validate col")
       (auto simp: spec_rule_calls_def spec_value_def get_property_def split: cell.splits)
next
  fix c
  assume "c \<in> set (snd (snd (filter_rows cols index data ([], []))))"
  with filter_rows_calls [of cols index data "[]" "[]"]
  obtain row col where "row \<in> set data" and "col \<in> set cols"
    and "c \<in> set (spec_rule_calls row col)"
    by auto
  with spec_rule_calls_member [of c row col]
  show "\<exists>row \<in> set data. \<exists>col \<in> set cols. \<exists>raw.
           row (name col) = Some (Str raw) \<and> trim raw \<noteq> [] \<and> validate col \<noteq> None
           \<and> c = ColValidate (name col) (trim raw)"
    by blast
next
  assume a: "\<forall>raw. row (name col) = Some (Str raw) \<longrightarrow> v (trim raw) = w (trim raw)"
  show "check_col n row (col\<lparr>validate := Some v\<rparr>) (allErrors, valid, calls)
            = check_col n row (col\<lparr>validate := Some w\<rparr>) (allErrors, valid, calls)"
  proof (cases "get_property row (name col)")
    case (JSString s)
    then have "row (name col) = Some (Str s)"
      by (auto simp: get_property_def split: option.splits cell.splits if_splits)
    with a have "v (trim s) = w (trim s)" by simp
    with JSString show ?thesis
      by (simp add: optional_trim_def Let_def missing_message_def invalid_message_def)
  qed (simp_all add: optional_trim_def Let_def missing_message_def invalid_message_def)
qed

text \<open>
  The digits-only check fails on the raw value \<open>" 42 "\<close> and holds on the trimmed value:
  the call is made with \<open>"42"\<close> and no message is pushed, as with a function that
  returns true on every value.
\<close>

theorem validate_sees_trimmed_value_witness:
  "check_col 0 [''age'' \<mapsto> Str '' 42 ''] rule_age ([], True, [])
     = (Inr (), [], True, [ColValidate ''age'' ''42''])
   \<and> \<not> digits_only '' 42 ''
   \<and> snd (snd (filter_rows [rule_id, rule_age] 0
        [[''id'' \<mapsto> Str ''1'', ''age'' \<mapsto> Str '' 42 ''],
         [''id'' \<mapsto> Str ''2'', ''age'' \<mapsto> Str ''7 '']] ([], [])))
     = [ColValidate ''age'' ''42'', ColValidate ''age'' ''7'']
   \<and> check_col 0 [''age'' \<mapsto> Str '' 42 ''] (rule_age\<lparr>validate := Some (\<lambda>value. True)\<rparr>)
        ([], True, [])
     = check_col 0 [''age'' \<mapsto> Str '' 42 ''] rule_age ([], True, [])"
  using validate_sees_trimmed_value [where n = 0 and row = "[''age'' \<mapsto> Str '' 42 '']"
      and col = rule_age and allErrors = "[]" and valid = True and calls = "[]"
      and cols = "[rule_id, rule_age]" and index = 0
      and data = "[[''id'' \<mapsto> Str ''1'', ''age'' \<mapsto> Str '' 42 ''],
                   [''id'' \<mapsto> Str ''2'', ''age'' \<mapsto> Str ''7 '']]"
      and v = "\<lambda>value. True" and w = digits_only]
  by (simp add: example_defs)

text \<open>
  C10, as the claim states it: after any drop event at most one of \<open>errors\<close> and
  \<open>fileError\<close> is non-empty. This fails when two drops overlap. \<open>Papa.parse\<close> on a file
  returns at once and calls back later; the callbacks set one of the two and do not clear
  the other. In \<open>overlapped_drops\<close> the second drop, of a file above the limit, sets
  \<open>fileError\<close> while the parse of the first is pending, and the \<open>complete\<close> callback of the
  first then sets \<open>errors\<close>.
\<close>

theorem overlapping_drops_counterexample:
  "\<not> (errors overlapped_drops = [] \<or> fileError overlapped_drops = None)"
  by (simp add: overlapped_drops_def onDrop_def papa_callback_def complete_callback_def
        too_large_def maxSize_def example_defs)

text \<open>
  C10, amended. The handler clears \<open>errors\<close> and \<open>fileError\<close> before any check: what it
  does is independent of what they held, and \<open>errors\<close> is empty when it returns. Each
  step sets at most one of the two: the size test sets \<open>fileError\<close>, the \<open>error\<close> callback
  sets \<open>fileError\<close> and leaves \<open>errors\<close> as it is, the \<open>complete\<close> callback leaves
  \<open>fileError\<close> as it is. So after a drop event that no other drop overlaps (the parser
  calls back on the state that the handler left), \<open>errors\<close> is empty or \<open>fileError\<close> is
  null: without a file both are clear, a file above the limit and a parse failure set
  \<open>fileError\<close> only, and when the parser completes \<open>fileError\<close> stays null. Nothing is
  said for drops that overlap.
\<close>

theorem one_error_surface:
  "(errors (fst (snd (drop_event e props acceptedFiles st0))) = []
      \<or> fileError (fst (snd (drop_event e props acceptedFiles st0))) = None)
   \<and> onDrop e props acceptedFiles st0
       = onDrop e props acceptedFiles (st0\<lparr>errors := [], fileError := None\<rparr>)
   \<and> drop_event e props acceptedFiles st0
       = drop_event e props acceptedFiles (st0\<lparr>errors := [], fileError := None\<rparr>)
   \<and> errors (fst (onDrop e props acceptedFiles st0)) = []
   \<and> fileError (fst (snd (complete_callback e props f data st))) = fileError st
   \<and> error_callback m st = (Inr (), st\<lparr>fileError := Some (''Parsing error: '' @ m)\<rparr>, [])
   \<and> drop_event e props [] st0 = (Inr (), st0\<lparr>errors := [], fileError := None\<rparr>, [])
   \<and> (too_large props f
        \<longrightarrow> errors (fst (snd (drop_event e props (f # fs) st0))) = []
          \<and> fileError (fst (snd (drop_event e props (f # fs) st0))) \<noteq> None)
   \<and> (\<not> too_large props f \<and> papa e f = Error m
        \<longrightarrow> errors (fst (snd (drop_event e props (f # fs) st0))) = []
          \<and> fileError (fst (snd (drop_event e props (f # fs) st0)))
              = Some (''Parsing error: '' @ m))
   \<and> (\<not> too_large props f \<and> papa e f = Complete data
        \<longrightarrow> fileError (fst (snd (drop_event e props (f # fs) st0))) = None)"
proof (intro conjI impI)
  show "errors (fst (snd (drop_event e props acceptedFiles st0))) = []
      \<or> fileError (fst (snd (drop_event e props acceptedFiles st0))) = None"
  proof (cases acceptedFiles)
    case Nil
    then show ?thesis by (simp add: drop_event_no_file)
  next
    case (Cons g gs)
    show ?thesis
    proof (cases "too_large props g")
      case True
      with Cons show ?thesis by (simp add: drop_event_too_large)
    next
      case False
      show ?thesis
      proof (cases "papa e g")
        case (Error msg)
        then show ?thesis unfolding Cons drop_event_parse [OF False]
          by (simp add: papa_callback_def error_callback_def)
      next
        case (Complete rows)
        then show ?thesis unfolding Cons drop_event_parse [OF False]
          by (simp add: papa_callback_def complete_callback_fileError)
      qed
    qed
  qed
  show "onDrop e props acceptedFiles st0
      = onDrop e props acceptedFiles (st0\<lparr>errors := [], fileError := None\<rparr>)"
    by (simp add: onDrop_def)
  then show "drop_event e props acceptedFiles st0
      = drop_event e props acceptedFiles (st0\<lparr>errors := [], fileError := None\<rparr>)"
    by (simp add: drop_event_def)
  show "errors (fst (onDrop e props acceptedFiles st0)) = []"
    by (rule onDrop_errors)
  show "fileError (fst (snd (complete_callback e props f data st))) = fileError st"
    by (rule complete_callback_fileError)
  show "error_callback m st = (Inr (), st\<lparr>fileError := Some (''Parsing error: '' @ m)\<rparr>, [])"
    by (simp add: error_callback_def)
  show "drop_event e props [] st0 = (Inr (), st0\<lparr>errors := [], fileError := None\<rparr>, [])"
    by (rule drop_event_no_file)
next
  assume "too_large props f"
  then show "errors (fst (snd (drop_event e props (f # fs) st0))) = []"
    and "fileError (fst (snd (drop_event e props (f # fs) st0))) \<noteq> None"
    by (simp_all add: drop_event_too_large)
next
  assume a: "\<not> too_large props f \<and> papa e f = Error m"
  then have n: "\<not> too_large props f" by simp
  from a show "errors (fst (snd (drop_event e props (f # fs) st0))) = []"
    and "fileError (fst (snd (drop_event e props (f # fs) st0)))
          = Some (''Parsing error: '' @ m)"
    unfolding drop_event_parse [OF n] by (simp_all add: papa_callback_def error_callback_def)
next
  assume a: "\<not> too_large props f \<and> papa e f = Complete data"
  then have n: "\<not> too_large props f" by simp
  from a show "fileError (fst (snd (drop_event e props (f # fs) st0))) = None"
    unfolding drop_event_parse [OF n]
    by (simp add: papa_callback_def complete_callback_fileError)
qed

text \<open>
  From a state in which both held something: rows with an error, a parse failure, and a
  file above the size limit.
\<close>

theorem one_error_surface_witness:
  "errors (fst (snd (drop_event (env_of (Complete [[''id'' \<mapsto> Str '''']]))
        (default_props\<lparr>columnConfigs := [rule_id]\<rparr>) [file_csv]
        (initial_state\<lparr>errors := [''old''], fileError := Some ''old''\<rparr>))))
     = [''Row 2: Missing required field \"id\".'']
   \<and> fileError (fst (snd (drop_event (env_of (Complete [[''id'' \<mapsto> Str '''']]))
        (default_props\<lparr>columnConfigs := [rule_id]\<rparr>) [file_csv]
        (initial_state\<lparr>errors := [''old''], fileError := Some ''old''\<rparr>)))) = None
   \<and> errors (fst (snd (drop_event (env_of (Error ''bad''))
        (default_props\<lparr>columnConfigs := [rule_id]\<rparr>) [file_csv]
        (initial_state\<lparr>errors := [''old''], fileError := Some ''old''\<rparr>)))) = []
   \<and> fileError (fst (snd (drop_event (env_of (Error ''bad''))
        (default_props\<lparr>columnConfigs := [rule_id]\<rparr>) [file_csv]
        (initial_state\<lparr>errors := [''old''], fileError := Some ''old''\<rparr>))))
     = Some ''Parsing error: bad''
   \<and> too_large (default_props\<lparr>maxSizeMB := Some 2\<rparr>) file_csv
   \<and> errors (fst (snd (drop_event (env_of (Complete [[''id'' \<mapsto> Str '''']]))
        (default_props\<lparr>maxSizeMB := Some 2\<rparr>) [file_csv]
        (initial_state\<lparr>errors := [''old''], fileError := Some ''old''\<rparr>)))) = []
   \<and> fileError (fst (snd (drop_event (env_of (Complete [[''id'' \<mapsto> Str '''']]))
        (default_props\<lparr>maxSizeMB := Some 2\<rparr>) [file_csv]
        (initial_state\<lparr>errors := [''old''], fileError := Some ''old''\<rparr>)))) \<noteq> None"
  using one_error_surface [where e = "env_of (Complete [[''id'' \<mapsto> Str '''']])"
      and props = "default_props\<lparr>columnConfigs := [rule_id]\<rparr>"
      and acceptedFiles = "[file_csv]" and f = file_csv and fs = "[]"
      and data = "[[''id'' \<mapsto> Str '''']]" and m = "''bad''" and st = initial_state
      and ?st0.0 = "initial_state\<lparr>errors := [''old''], fileError := Some ''old''\<rparr>"]
    one_error_surface [where e = "env_of (Error ''bad'')"
      and props = "default_props\<lparr>columnConfigs := [rule_id]\<rparr>"
      and acceptedFiles = "[file_csv]" and f = file_csv and fs = "[]"
      and data = "[]" and m = "''bad''" and st = initial_state
      and ?st0.0 = "initial_state\<lparr>errors := [''old''], fileError := Some ''old''\<rparr>"]
    one_error_surface [where e = "env_of (Complete [[''id'' \<mapsto> Str '''']])"
      and props = "default_props\<lparr>maxSizeMB := Some 2\<rparr>"
      and acceptedFiles = "[file_csv]" and f = file_csv and fs = "[]"
      and data = "[]" and m = "''bad''" and st = initial_state
      and ?st0.0 = "initial_state\<lparr>errors := [''old''], fileError := Some ''old''\<rparr>"]
  by (simp add: example_defs drop_event_def onDrop_def papa_callback_def
        complete_callback_def error_callback_def too_large_def maxSize_def)

end
